theory Spec2Isabelle
  imports Main
begin

section \<open>The cleaner of pkg/cleaner/main.go\<close>

text \<open>
  The cleaner is a sequential program that talks to three collaborators: the cluster
  registry (the generated clientset, with the package functions \<open>danmep.FindByCid\<close>,
  \<open>danmep.CidsByHost\<close> and \<open>ipam.Free\<close> that take it), the Docker client and the logger.
  None of the collaborators is part of \<open>main.go\<close>, so the functions of \<open>main.go\<close> are
  embedded over an arbitrary collaborator state \<open>'s\<close>: every collaborator operation is a
  parameter that maps the state to its Go result and the next state. A function of
  \<open>main.go\<close> returns the list of calls it issued, in program order, and the state it
  leaves behind. The call list holds what \<open>main.go\<close> itself does: an entry for each
  collaborator call, for each \<open>glog\<close> call and for each entry into \<open>deleteInterface\<close>.
\<close>

subsection \<open>Data\<close>

text \<open>
  \<open>danmtypes.DanmEp\<close>, with the fields \<open>main.go\<close> reads: \<open>ObjectMeta.Namespace\<close>,
  \<open>ObjectMeta.Name\<close>, \<open>Spec.NetworkID\<close>, \<open>Spec.NetworkType\<close>, \<open>Spec.CID\<close> and
  \<open>Spec.Iface.Address\<close>. \<open>Host\<close> is the host the endpoint's container is scheduled to;
  only the reference registry below reads it.
\<close>

record DanmEp =
  Namespace :: string
  Name :: string
  NetworkID :: string
  NetworkType :: string
  CID :: string
  Address :: string
  Host :: string

text \<open>
  Modelled from the spec: the declaration of \<open>danmtypes.DanmNet\<close> is not part of
  \<open>main.go\<close>. A network definition is stored under a namespace and a name, carries a
  type tag and describes its address pool, kept here as the list of addresses that are
  allocated.
\<close>

record DanmNet =
  net_Namespace :: string
  net_Name :: string
  net_NetworkType :: string
  net_Alloc :: "string list"

text \<open>\<open>docker.APIContainers\<close>: \<open>main.go\<close> reads \<open>ID\<close>; the exited filter reads the state.\<close>

record APIContainers =
  container_ID :: string
  container_State :: string

text \<open>
  \<open>docker.APIEvents\<close>: \<open>Type\<close>, \<open>Action\<close>, \<open>ID\<close> and \<open>Actor.Attributes\<close>, a Go
  \<open>map[string]string\<close>.
\<close>

record APIEvents =
  ev_Type :: string
  ev_Action :: string
  ev_ID :: string
  ev_Attributes :: "string \<rightharpoonup> string"

text \<open>Reading a Go map at a missing key (or reading a nil map) gives the zero value.\<close>

definition map_index :: "(string \<rightharpoonup> string) \<Rightarrow> string \<Rightarrow> string" where
  "map_index m k = (case m k of None \<Rightarrow> [] | Some v \<Rightarrow> v)"

text \<open>\<open>docker.ListContainersOptions\<close> with the two fields \<open>cleanup\<close> sets.\<close>

record ListContainersOptions =
  opt_All :: bool
  opt_Filters :: "(string \<times> string list) list"

text \<open>The \<open>error\<close> values of the collaborators: an absent object, or anything else.\<close>

datatype error = NotFound | Transient

text \<open>\<open>glog.Fatal\<close> and \<open>glog.Fatalf\<close> log and exit the process.\<close>

datatype fatal = Fatal

subsection \<open>Calls\<close>

datatype call =
    Call_deleteInterface DanmEp
  | Call_DanmNets_Get string string
  | Call_ipam_Free DanmNet string
  | Call_DanmEps_Delete string string
  | Call_FindByCid string
  | Call_CidsByHost string
  | Call_ListContainers ListContainersOptions
  | Call_AddEventListener
  | Call_glog_Errorf string
  | Call_glog_Errorf_err string error
  | Call_glog_Infof_eps "DanmEp list"
  | Call_glog_Info string

text \<open>The endpoints \<open>deleteInterface\<close> was entered with, in order.\<close>

fun invoked :: "call list \<Rightarrow> DanmEp list" where
  "invoked [] = []"
| "invoked (Call_deleteInterface ep # cs) = ep # invoked cs"
| "invoked (c # cs) = invoked cs"

fun is_ipam_Free :: "call \<Rightarrow> bool" where
  "is_ipam_Free (Call_ipam_Free n a) = True"
| "is_ipam_Free c = False"

fun is_glog :: "call \<Rightarrow> bool" where
  "is_glog (Call_glog_Errorf m) = True"
| "is_glog (Call_glog_Errorf_err m err) = True"
| "is_glog (Call_glog_Infof_eps eps) = True"
| "is_glog (Call_glog_Info m) = True"
| "is_glog c = False"

subsection \<open>Collaborators\<close>

text \<open>
  \<open>*danmclientset.Clientset\<close> and the package functions that take it. Each field is
  one Go call: the result the caller sees (an \<open>error\<close> on the left) and the next state.
  \<open>ipam.Free\<close> and \<open>Delete\<close> give their outcome, which \<open>main.go\<close> discards.
\<close>

record 's Clientset =
  DanmNets_Get :: "string \<Rightarrow> string \<Rightarrow> 's \<Rightarrow> (error + DanmNet) \<times> 's"
  DanmEps_Delete :: "string \<Rightarrow> string \<Rightarrow> 's \<Rightarrow> error option \<times> 's"
  ipam_Free :: "DanmNet \<Rightarrow> string \<Rightarrow> 's \<Rightarrow> error option \<times> 's"
  danmep_FindByCid :: "string \<Rightarrow> 's \<Rightarrow> (error + DanmEp list) \<times> 's"
  danmep_CidsByHost :: "string \<Rightarrow> 's \<Rightarrow> (error + DanmEp list) \<times> 's"

text \<open>\<open>*docker.Client\<close>.\<close>

record 's Client =
  ListContainers :: "ListContainersOptions \<Rightarrow> 's \<Rightarrow> (error + APIContainers list) \<times> 's"
  AddEventListener :: "'s \<Rightarrow> error option \<times> 's"

subsection \<open>deleteInterface\<close>

text \<open>
  Lines 142 to 154. The fetch error is logged and ends the function. The release is
  guarded by the \<open>NetworkType\<close> field of the endpoint; its outcome is not read. The
  outcome of \<open>Delete\<close> is not read either. The function has no result.
\<close>

definition deleteInterface :: "'s Clientset \<Rightarrow> DanmEp \<Rightarrow> 's \<Rightarrow> call list \<times> 's" where
  "deleteInterface cli ep s =
     (case DanmNets_Get cli (Namespace ep) (NetworkID ep) s of
        (Inl err, s1) \<Rightarrow>
          ([Call_deleteInterface ep,
            Call_DanmNets_Get (Namespace ep) (NetworkID ep),
            Call_glog_Errorf (''Cannot fetch net info for net: '' @ NetworkID ep)], s1)
      | (Inr netInfo, s1) \<Rightarrow>
          (let (t2, s2) =
                 (if NetworkType ep \<noteq> ''ipvlan''
                  then ([Call_ipam_Free netInfo (Address ep)],
                        snd (ipam_Free cli netInfo (Address ep) s1))
                  else ([], s1));
               s3 = snd (DanmEps_Delete cli (Namespace ep) (Name ep) s2)
           in ([Call_deleteInterface ep,
                Call_DanmNets_Get (Namespace ep) (NetworkID ep)]
               @ t2 @ [Call_DanmEps_Delete (Namespace ep) (Name ep)], s3)))"

subsection \<open>ProcessEvent and Watch\<close>

text \<open>Lines 43 to 45: the loop over the endpoints found.\<close>

fun deleteInterface_range :: "'s Clientset \<Rightarrow> DanmEp list \<Rightarrow> 's \<Rightarrow> call list \<times> 's" where
  "deleteInterface_range cli [] s = ([], s)"
| "deleteInterface_range cli (ep # eps) s =
     (let (t1, s1) = deleteInterface cli ep s;
          (t2, s2) = deleteInterface_range cli eps s1
      in (t1 @ t2, s2))"

text \<open>Lines 28 to 47. A failed lookup ends the function at line 40.\<close>

definition ProcessEvent :: "'s Clientset \<Rightarrow> APIEvents \<Rightarrow> 's \<Rightarrow> call list \<times> 's" where
  "ProcessEvent cli event s =
     (if map_index (ev_Attributes event) ''io.kubernetes.docker.type'' \<noteq> ''podsandbox''
      then ([], s)
      else if ev_Action event = ''kill'' \<or> ev_Action event = ''die''
              \<or> ev_Action event = ''stop'' \<or> ev_Action event = ''destroy''
      then (case danmep_FindByCid cli (ev_ID event) s of
              (Inl err, s1) \<Rightarrow> ([Call_FindByCid (ev_ID event)], s1)
            | (Inr eps, s1) \<Rightarrow>
                (let (t, s2) = deleteInterface_range cli eps s1
                 in ([Call_FindByCid (ev_ID event), Call_glog_Infof_eps eps] @ t, s2)))
      else ([], s))"

text \<open>Lines 67 to 72: what the loop does with one message taken from the listener.\<close>

definition Watch_select :: "'s Clientset \<Rightarrow> APIEvents \<Rightarrow> 's \<Rightarrow> call list \<times> 's" where
  "Watch_select cli msg s =
     (if ev_Type msg = ''container'' then ProcessEvent cli msg s else ([], s))"

text \<open>
  Lines 66 to 73. The loop has no exit: it blocks on the listener and handles each
  message in the order of delivery. \<open>Watch_loop\<close> is the loop on the messages delivered
  so far.
\<close>

fun Watch_loop :: "'s Clientset \<Rightarrow> APIEvents list \<Rightarrow> 's \<Rightarrow> call list \<times> 's" where
  "Watch_loop cli [] s = ([], s)"
| "Watch_loop cli (msg # msgs) s =
     (let (t1, s1) = Watch_select cli msg s;
          (t2, s2) = Watch_loop cli msgs s1
      in (t1 @ t2, s2))"

text \<open>
  Lines 49 to 74. A failed subscription is fatal. The deferred unsubscription never
  runs: the loop does not end, and \<open>glog.Fatal\<close> exits without running it.
\<close>

definition Watch :: "'s Clientset \<Rightarrow> 's Client \<Rightarrow> APIEvents list \<Rightarrow> 's \<Rightarrow> fatal + call list \<times> 's" where
  "Watch cli client msgs s =
     (case AddEventListener client s of
        (Some err, s1) \<Rightarrow> Inl Fatal
      | (None, s1) \<Rightarrow>
          (let (t, s2) = Watch_loop cli msgs s1
           in Inr ([Call_AddEventListener, Call_glog_Info ''Connected''] @ t, s2)))"

subsection \<open>cleanup\<close>

text \<open>Lines 130 to 137.\<close>

fun contains :: "string list \<Rightarrow> string \<Rightarrow> bool" where
  "contains [] y = False"
| "contains (z # x) y = (if z = y then True else contains x y)"

text \<open>Lines 159 to 165, on the outcome of \<open>os.Hostname\<close>.\<close>

definition getHostname :: "error + string \<Rightarrow> fatal + string" where
  "getHostname os_Hostname = (case os_Hostname of Inl err \<Rightarrow> Inl Fatal | Inr ret \<Rightarrow> Inr ret)"

definition optDead :: ListContainersOptions where
  "optDead = \<lparr>opt_All = True, opt_Filters = [(''status'', [''exited''])]\<rparr>"

definition optAll :: ListContainersOptions where
  "optAll = \<lparr>opt_All = True, opt_Filters = []\<rparr>"

text \<open>Lines 106 to 110.\<close>

fun container_ids :: "string list \<Rightarrow> APIContainers list \<Rightarrow> string list" where
  "container_ids cids [] = cids"
| "container_ids cids (container # dockerAll) =
     container_ids (cids @ [container_ID container]) dockerAll"

text \<open>Lines 113 to 117: the inner loop of the first pass, for one exited container.\<close>

fun cleanup_dead :: "'s Clientset \<Rightarrow> APIContainers \<Rightarrow> DanmEp list \<Rightarrow> 's \<Rightarrow> call list \<times> 's" where
  "cleanup_dead cli dead [] s = ([], s)"
| "cleanup_dead cli dead (ep # eps) s =
     (let (t1, s1) = (if CID ep = container_ID dead then deleteInterface cli ep s else ([], s));
          (t2, s2) = cleanup_dead cli dead eps s1
      in (t1 @ t2, s2))"

text \<open>Lines 112 to 118: the first pass.\<close>

fun cleanup_deads :: "'s Clientset \<Rightarrow> APIContainers list \<Rightarrow> DanmEp list \<Rightarrow> 's \<Rightarrow> call list \<times> 's" where
  "cleanup_deads cli [] eps s = ([], s)"
| "cleanup_deads cli (dead # dockerDeads) eps s =
     (let (t1, s1) = cleanup_dead cli dead eps s;
          (t2, s2) = cleanup_deads cli dockerDeads eps s1
      in (t1 @ t2, s2))"

text \<open>Lines 120 to 124: the second pass.\<close>

fun cleanup_missing :: "'s Clientset \<Rightarrow> string list \<Rightarrow> DanmEp list \<Rightarrow> 's \<Rightarrow> call list \<times> 's" where
  "cleanup_missing cli cids [] s = ([], s)"
| "cleanup_missing cli cids (ep # eps) s =
     (let (t1, s1) = (if \<not> contains cids (CID ep) then deleteInterface cli ep s else ([], s));
          (t2, s2) = cleanup_missing cli cids eps s1
      in (t1 @ t2, s2))"

text \<open>
  Lines 85 to 125. \<open>getHostname\<close> is evaluated first and is fatal when the host name
  cannot be read. Each of the three listings logs and returns when it fails.
\<close>

definition cleanup ::
  "'s Client \<Rightarrow> 's Clientset \<Rightarrow> error + string \<Rightarrow> 's \<Rightarrow> fatal + call list \<times> 's" where
  "cleanup dockercli danmcli os_Hostname s =
     (case getHostname os_Hostname of
        Inl f \<Rightarrow> Inl f
      | Inr host \<Rightarrow>
         (case danmep_CidsByHost danmcli host s of
            (Inl err, s1) \<Rightarrow>
              Inr ([Call_CidsByHost host, Call_glog_Errorf_err ''Cleanup failed: '' err], s1)
          | (Inr eps, s1) \<Rightarrow>
             (case ListContainers dockercli optDead s1 of
                (Inl err, s2) \<Rightarrow>
                  Inr ([Call_CidsByHost host, Call_ListContainers optDead,
                        Call_glog_Errorf_err ''Cleanup failed: '' err], s2)
              | (Inr dockerDeads, s2) \<Rightarrow>
                 (case ListContainers dockercli optAll s2 of
                    (Inl err, s3) \<Rightarrow>
                      Inr ([Call_CidsByHost host, Call_ListContainers optDead,
                            Call_ListContainers optAll,
                            Call_glog_Errorf_err ''Cleanup failed: '' err], s3)
                  | (Inr dockerAll, s3) \<Rightarrow>
                     (let cids = container_ids [] dockerAll;
                          (t1, s4) = cleanup_deads danmcli dockerDeads eps s3;
                          (t2, s5) = cleanup_missing danmcli cids eps s4
                      in Inr ([Call_CidsByHost host, Call_ListContainers optDead,
                               Call_ListContainers optAll] @ t1 @ t2, s5))))))"

subsection \<open>A reference registry and runtime\<close>

text \<open>
  Modelled from the spec: the registry client, \<open>ipam.Free\<close>, \<open>danmep.FindByCid\<close>,
  \<open>danmep.CidsByHost\<close> and the Docker client are not part of \<open>main.go\<close>. The reference
  collaborators are plain stores. A network definition is fetched by namespace and
  name and is not found when absent; releasing an address takes it out of the pool of
  the stored definition; deleting an endpoint removes the record with that namespace and
  name and reports an absent record as not found; the two listings of endpoints select by
  container identifier and by host; the runtime lists its containers, all of them or the
  exited ones.
\<close>

record world =
  w_nets :: "DanmNet list"
  w_eps :: "DanmEp list"
  w_containers :: "APIContainers list"

text \<open>The key of a stored network definition, and of a stored endpoint record.\<close>

definition net_key :: "string \<Rightarrow> string \<Rightarrow> DanmNet \<Rightarrow> bool" where
  "net_key ns name n = (net_Namespace n = ns \<and> net_Name n = name)"

definition ep_key :: "string \<Rightarrow> string \<Rightarrow> DanmEp \<Rightarrow> bool" where
  "ep_key ns name e = (Namespace e = ns \<and> Name e = name)"

text \<open>
  Modelled from the spec: \<open>getNetworkDefinition(namespace, networkID)\<close> of the registry
  client gives the definition or reports that it is not found.
\<close>

definition ref_DanmNets_Get :: "string \<Rightarrow> string \<Rightarrow> world \<Rightarrow> (error + DanmNet) \<times> world" where
  "ref_DanmNets_Get ns name w =
     (case find (net_key ns name) (w_nets w) of
        None \<Rightarrow> (Inl NotFound, w)
      | Some n \<Rightarrow> (Inr n, w))"

text \<open>
  Modelled from the spec: \<open>releaseAddress(networkDefinition, address)\<close> of the allocator
  client gives the address back to the pool of the network.
\<close>

definition release :: "string \<Rightarrow> string \<Rightarrow> string \<Rightarrow> DanmNet \<Rightarrow> DanmNet" where
  "release ns name ip n =
     (if net_key ns name n
      then n\<lparr>net_Alloc := removeAll ip (net_Alloc n)\<rparr> else n)"

definition ref_ipam_Free :: "DanmNet \<Rightarrow> string \<Rightarrow> world \<Rightarrow> error option \<times> world" where
  "ref_ipam_Free netInfo ip w =
     (case find (net_key (net_Namespace netInfo) (net_Name netInfo)) (w_nets w) of
        None \<Rightarrow> (Some NotFound, w)
      | Some n \<Rightarrow>
          (None, w\<lparr>w_nets := map (release (net_Namespace netInfo) (net_Name netInfo) ip)
                                 (w_nets w)\<rparr>))"

text \<open>
  Modelled from the spec: \<open>deleteEndpoint(namespace, name)\<close> of the registry client
  removes the record; an absent record is reported and nothing changes.
\<close>

definition ref_DanmEps_Delete :: "string \<Rightarrow> string \<Rightarrow> world \<Rightarrow> error option \<times> world" where
  "ref_DanmEps_Delete ns name w =
     (case find (ep_key ns name) (w_eps w) of
        None \<Rightarrow> (Some NotFound, w)
      | Some e \<Rightarrow> (None, w\<lparr>w_eps := filter (\<lambda>e. \<not> ep_key ns name e) (w_eps w)\<rparr>))"

text \<open>
  Modelled from the spec: \<open>listEndpointsByContainerID(cid)\<close> and
  \<open>listEndpointsByHost(hostname)\<close> of the registry client.
\<close>

definition ref_FindByCid :: "string \<Rightarrow> world \<Rightarrow> (error + DanmEp list) \<times> world" where
  "ref_FindByCid cid w = (Inr (filter (\<lambda>e. CID e = cid) (w_eps w)), w)"

definition ref_CidsByHost :: "string \<Rightarrow> world \<Rightarrow> (error + DanmEp list) \<times> world" where
  "ref_CidsByHost host w = (Inr (filter (\<lambda>e. Host e = host) (w_eps w)), w)"

definition ref_cli :: "world Clientset" where
  "ref_cli = \<lparr>DanmNets_Get = ref_DanmNets_Get, DanmEps_Delete = ref_DanmEps_Delete,
              ipam_Free = ref_ipam_Free, danmep_FindByCid = ref_FindByCid,
              danmep_CidsByHost = ref_CidsByHost\<rparr>"

text \<open>
  Modelled from the spec: \<open>listContainers\<close> of the runtime client gives all containers,
  or the ones whose state is among those of the \<open>status\<close> filter.
\<close>

definition ref_ListContainers ::
  "ListContainersOptions \<Rightarrow> world \<Rightarrow> (error + APIContainers list) \<times> world" where
  "ref_ListContainers opts w =
     (case map_of (opt_Filters opts) ''status'' of
        None \<Rightarrow> (Inr (w_containers w), w)
      | Some sts \<Rightarrow> (Inr (filter (\<lambda>c. container_State c \<in> set sts) (w_containers w)), w))"

definition ref_dockercli :: "world Client" where
  "ref_dockercli = \<lparr>ListContainers = ref_ListContainers,
                    AddEventListener = (\<lambda>w. (None, w))\<rparr>"

text \<open>The registry record of an endpoint is present when its namespace and name are.\<close>

definition ep_present :: "DanmEp \<Rightarrow> world \<Rightarrow> bool" where
  "ep_present ep w = (find (ep_key (Namespace ep) (Name ep)) (w_eps w) \<noteq> None)"

subsection \<open>The endpoints, networks and events of the scenarios\<close>

text \<open>
  The endpoint \<open>ep1\<close>, the network \<open>net1\<close> and the container \<open>abc\<close> are those of the
  end-to-end scenarios of the spec; the others extend them.
\<close>

definition ep1 :: DanmEp where
  "ep1 = \<lparr>Namespace = ''x'', Name = ''ep1'', NetworkID = ''net1'', NetworkType = ''other'',
          CID = ''abc'', Address = ''10.0.0.5'', Host = ''node1''\<rparr>"

definition ep2 :: DanmEp where
  "ep2 = \<lparr>Namespace = ''x'', Name = ''ep2'', NetworkID = ''net2'', NetworkType = ''ipvlan'',
          CID = ''abc'', Address = ''10.0.1.7'', Host = ''node1''\<rparr>"

definition ep3 :: DanmEp where
  "ep3 = \<lparr>Namespace = ''x'', Name = ''ep3'', NetworkID = ''net1'', NetworkType = ''other'',
          CID = ''run'', Address = ''10.0.0.6'', Host = ''node1''\<rparr>"

definition ep4 :: DanmEp where
  "ep4 = \<lparr>Namespace = ''x'', Name = ''ep4'', NetworkID = ''net1'', NetworkType = ''other'',
          CID = ''gone'', Address = ''10.0.0.7'', Host = ''node1''\<rparr>"

definition net1 :: DanmNet where
  "net1 = \<lparr>net_Namespace = ''x'', net_Name = ''net1'', net_NetworkType = ''other'',
           net_Alloc = [''10.0.0.5'', ''10.0.0.6'', ''10.0.0.7'']\<rparr>"

definition net1_ipvlan :: DanmNet where
  "net1_ipvlan = \<lparr>net_Namespace = ''x'', net_Name = ''net1'', net_NetworkType = ''ipvlan'',
                  net_Alloc = [''10.0.0.5'']\<rparr>"

definition net2 :: DanmNet where
  "net2 = \<lparr>net_Namespace = ''x'', net_Name = ''net2'', net_NetworkType = ''ipvlan'',
           net_Alloc = []\<rparr>"

definition abc_exited :: APIContainers where
  "abc_exited = \<lparr>container_ID = ''abc'', container_State = ''exited''\<rparr>"

definition run_running :: APIContainers where
  "run_running = \<lparr>container_ID = ''run'', container_State = ''running''\<rparr>"

text \<open>Scenario 1: \<open>ep1\<close> on \<open>net1\<close>, container \<open>abc\<close> exited.\<close>

definition world1 :: world where
  "world1 = \<lparr>w_nets = [net1], w_eps = [ep1], w_containers = [abc_exited]\<rparr>"

text \<open>Scenario 2: as scenario 1, with the type tag of \<open>net1\<close> the exempt one.\<close>

definition world2 :: world where
  "world2 = \<lparr>w_nets = [net1_ipvlan], w_eps = [ep1], w_containers = [abc_exited]\<rparr>"

text \<open>
  A host with an exited container, a running one and a vanished one; \<open>net2\<close>, the network
  of \<open>ep2\<close>, has no definition.
\<close>

definition world3 :: world where
  "world3 = \<lparr>w_nets = [net1], w_eps = [ep2, ep1, ep3, ep4],
             w_containers = [abc_exited, run_running]\<rparr>"

text \<open>As \<open>world3\<close>, with the definition of \<open>net2\<close> present.\<close>

definition world4 :: world where
  "world4 = \<lparr>w_nets = [net1, net2], w_eps = [ep2, ep1, ep3, ep4],
             w_containers = [abc_exited, run_running]\<rparr>"

definition sandbox_event :: "string \<Rightarrow> string \<Rightarrow> APIEvents" where
  "sandbox_event action cid =
     \<lparr>ev_Type = ''container'', ev_Action = action, ev_ID = cid,
      ev_Attributes = [''io.kubernetes.docker.type'' \<mapsto> ''podsandbox'']\<rparr>"

text \<open>Scenario 3: a notification of category \<open>network\<close> with action \<open>die\<close>.\<close>

definition network_die :: APIEvents where
  "network_die = \<lparr>ev_Type = ''network'', ev_Action = ''die'', ev_ID = ''abc'',
                  ev_Attributes = [''io.kubernetes.docker.type'' \<mapsto> ''podsandbox'']\<rparr>"

text \<open>An application container of a pod, and a container without the label.\<close>

definition app_container_die :: APIEvents where
  "app_container_die = \<lparr>ev_Type = ''container'', ev_Action = ''die'', ev_ID = ''abc'',
                        ev_Attributes = [''io.kubernetes.docker.type'' \<mapsto> ''container'']\<rparr>"

definition unlabelled_die :: APIEvents where
  "unlabelled_die = \<lparr>ev_Type = ''container'', ev_Action = ''die'', ev_ID = ''abc'',
                     ev_Attributes = Map.empty\<rparr>"

text \<open>A registry whose lookup by container identifier fails.\<close>

definition lookup_down_cli :: "world Clientset" where
  "lookup_down_cli = ref_cli\<lparr>danmep_FindByCid := (\<lambda>cid w. (Inl Transient, w))\<rparr>"

text \<open>An allocator whose release fails.\<close>

definition release_down_cli :: "world Clientset" where
  "release_down_cli = ref_cli\<lparr>ipam_Free := (\<lambda>netInfo ip w. (Some Transient, w))\<rparr>"

section \<open>Properties\<close>

subsection \<open>Unfolding the scenarios and the reference collaborators\<close>

lemmas scenario_defs =
  ep1_def ep2_def ep3_def ep4_def net1_def net2_def net1_ipvlan_def abc_exited_def run_running_def
  world1_def world2_def world3_def world4_def

lemmas ref_defs =
  ref_cli_def ref_dockercli_def ref_DanmNets_Get_def ref_ipam_Free_def ref_DanmEps_Delete_def
  ref_FindByCid_def ref_CidsByHost_def ref_ListContainers_def release_def net_key_def ep_key_def
  optDead_def optAll_def

subsection \<open>Which endpoints a loop enters deleteInterface with\<close>

lemma invoked_append: "invoked (a @ b) = invoked a @ invoked b"
  by (induction a rule: invoked.induct) auto

lemma deleteInterface_invoked:
  "deleteInterface cli ep s = (t, s') \<Longrightarrow> invoked t = [ep]"
  by (auto simp: deleteInterface_def split: prod.splits sum.splits if_splits)

lemma contains_iff: "contains x y \<longleftrightarrow> y \<in> set x"
  by (induction x) auto

lemma container_ids_eq: "container_ids cids dockerAll = cids @ map container_ID dockerAll"
  by (induction dockerAll arbitrary: cids) auto


lemma cleanup_dead_invoked:
  "cleanup_dead cli dead eps s = (t, s') \<Longrightarrow>
     invoked t = filter (\<lambda>e. CID e = container_ID dead) eps"
proof (induction eps arbitrary: s t s')
  case Nil
  then show ?case by simp
next
  case (Cons ep eps)
  then show ?case
    by (auto simp: invoked_append split: prod.splits if_splits dest: deleteInterface_invoked)
qed

lemma cleanup_deads_invoked:
  "cleanup_deads cli dockerDeads eps s = (t, s') \<Longrightarrow>
     invoked t = concat (map (\<lambda>dead. filter (\<lambda>e. CID e = container_ID dead) eps) dockerDeads)"
proof (induction dockerDeads arbitrary: s t s')
  case Nil
  then show ?case by simp
next
  case (Cons dead dockerDeads)
  then show ?case
    by (auto simp: invoked_append split: prod.splits dest: cleanup_dead_invoked)
qed

lemma cleanup_missing_invoked:
  "cleanup_missing cli cids eps s = (t, s') \<Longrightarrow>
     invoked t = filter (\<lambda>e. CID e \<notin> set cids) eps"
proof (induction eps arbitrary: s t s')
  case Nil
  then show ?case by simp
next
  case (Cons ep eps)
  then show ?case
    by (auto simp: invoked_append contains_iff split: prod.splits if_splits
             dest: deleteInterface_invoked)
qed

lemma cleanup_invoked:
  assumes "danmep_CidsByHost danmcli host s = (Inr eps, s1)"
      and "ListContainers dockercli optDead s1 = (Inr dockerDeads, s2)"
      and "ListContainers dockercli optAll s2 = (Inr dockerAll, s3)"
  shows "\<exists>t1 s4 t2 s5.
           cleanup_deads danmcli dockerDeads eps s3 = (t1, s4) \<and>
           cleanup_missing danmcli (map container_ID dockerAll) eps s4 = (t2, s5) \<and>
           cleanup dockercli danmcli (Inr host) s =
             Inr ([Call_CidsByHost host, Call_ListContainers optDead,
                   Call_ListContainers optAll] @ t1 @ t2, s5)"
  using assms
  by (auto simp: cleanup_def getHostname_def container_ids_eq split: prod.splits)


subsection \<open>The loops of cleanup are the loop of ProcessEvent on the selected endpoints\<close>

lemma deleteInterface_range_append:
  "deleteInterface_range cli (xs @ ys) s =
     (let (t1, s1) = deleteInterface_range cli xs s;
          (t2, s2) = deleteInterface_range cli ys s1
      in (t1 @ t2, s2))"
  by (induction xs arbitrary: s) (auto split: prod.splits)

lemma cleanup_dead_range:
  "cleanup_dead cli dead eps s =
     deleteInterface_range cli (filter (\<lambda>e. CID e = container_ID dead) eps) s"
  by (induction eps arbitrary: s) (auto split: prod.splits)

lemma cleanup_deads_range:
  "cleanup_deads cli dockerDeads eps s =
     deleteInterface_range cli
       (concat (map (\<lambda>dead. filter (\<lambda>e. CID e = container_ID dead) eps) dockerDeads)) s"
  by (induction dockerDeads arbitrary: s)
     (auto simp: cleanup_dead_range deleteInterface_range_append split: prod.splits)


subsection \<open>Counting in lists\<close>

lemma count_list_filter:
  "count_list (filter P xs) e = (if P e then count_list xs e else 0)"
  by (induction xs) auto

lemma count_list_selected:
  "count_list (concat (map (\<lambda>dead. filter (\<lambda>e. CID e = container_ID dead) eps) dockerDeads)) e
     = count_list eps e * count_list (map container_ID dockerDeads) (CID e)"
  by (induction dockerDeads) (auto simp: count_list_filter)

lemma distinct_count_le_1: "distinct xs \<Longrightarrow> count_list xs x \<le> 1"
  by (induction xs) auto

lemma count_le_1_distinct: "(\<And>x. count_list xs x \<le> 1) \<Longrightarrow> distinct xs"
proof (induction xs)
  case Nil
  then show ?case by simp
next
  case (Cons a xs)
  have "count_list xs a = 0"
    using Cons.prems[of a] by simp
  then have "a \<notin> set xs"
    by (simp add: count_list_0_iff)
  moreover have "count_list xs x \<le> 1" for x
    using Cons.prems[of x] by (simp split: if_splits)
  ultimately show ?case
    using Cons.IH by simp
qed

lemma count_le_distinct:
  assumes "\<And>e. count_list ys e \<le> count_list xs e" and "distinct xs"
  shows "distinct ys"
proof (rule count_le_1_distinct)
  fix e
  show "count_list ys e \<le> 1"
    using assms(1)[of e] distinct_count_le_1[OF assms(2), of e] by simp
qed

subsection \<open>The reference registry\<close>

lemma ref_cli_sel:
  "DanmNets_Get ref_cli = ref_DanmNets_Get"
  "DanmEps_Delete ref_cli = ref_DanmEps_Delete"
  "ipam_Free ref_cli = ref_ipam_Free"
  "danmep_FindByCid ref_cli = ref_FindByCid"
  "danmep_CidsByHost ref_cli = ref_CidsByHost"
  by (simp_all add: ref_cli_def)

lemma find_map_preserved:
  "(\<And>x. P (f x) = P x) \<Longrightarrow> find P (map f xs) = map_option f (find P xs)"
  by (induction xs) auto

lemma release_idem: "release ns name ip (release ns name ip n) = release ns name ip n"
  by (simp add: release_def net_key_def)

lemma release_key: "net_key ns' name' (release ns name ip n) = net_key ns' name' n"
  by (simp add: release_def net_key_def)

lemma find_Some_holds: "find P xs = Some x \<Longrightarrow> P x"
  by (induction xs) (auto split: if_splits)

lemma find_filter_not: "find P (filter (\<lambda>x. \<not> P x) xs) = None"
  by (induction xs) auto

lemma filter_not_absent: "find P xs = None \<Longrightarrow> filter (\<lambda>x. \<not> P x) xs = xs"
  by (induction xs) (auto split: if_splits)

text \<open>The state in which one call of \<open>deleteInterface\<close> leaves the reference registry.\<close>

lemma deleteInterface_ref_state:
  "snd (deleteInterface ref_cli ep w) =
     (case find (net_key (Namespace ep) (NetworkID ep)) (w_nets w) of
        None \<Rightarrow> w
      | Some n \<Rightarrow>
          w\<lparr>w_nets := (if NetworkType ep \<noteq> ''ipvlan''
                        then map (release (Namespace ep) (NetworkID ep) (Address ep)) (w_nets w)
                        else w_nets w),
             w_eps := filter (\<lambda>e. \<not> ep_key (Namespace ep) (Name ep) e) (w_eps w)\<rparr>)"
proof (cases "find (net_key (Namespace ep) (NetworkID ep)) (w_nets w)")
  case None
  then show ?thesis
    by (simp add: deleteInterface_def ref_cli_sel ref_DanmNets_Get_def)
next
  case (Some n)
  have k: "net_Namespace n = Namespace ep" "net_Name n = NetworkID ep"
    using find_Some_holds[OF Some] by (simp_all add: net_key_def)
  show ?thesis
    using Some k
    by (auto simp: deleteInterface_def ref_cli_sel ref_DanmNets_Get_def ref_ipam_Free_def
                   ref_DanmEps_Delete_def filter_not_absent split: option.splits)
qed

lemma deleteInterface_ref_calls:
  "fst (deleteInterface ref_cli ep w) =
     (case find (net_key (Namespace ep) (NetworkID ep)) (w_nets w) of
        None \<Rightarrow> [Call_deleteInterface ep, Call_DanmNets_Get (Namespace ep) (NetworkID ep),
                 Call_glog_Errorf (''Cannot fetch net info for net: '' @ NetworkID ep)]
      | Some n \<Rightarrow>
          [Call_deleteInterface ep, Call_DanmNets_Get (Namespace ep) (NetworkID ep)]
          @ (if NetworkType ep \<noteq> ''ipvlan'' then [Call_ipam_Free n (Address ep)] else [])
          @ [Call_DanmEps_Delete (Namespace ep) (Name ep)])"
  by (auto simp: deleteInterface_def ref_cli_sel ref_DanmNets_Get_def split: option.splits)

subsection \<open>One call of deleteInterface\<close>

lemma deleteInterface_fetched:
  assumes "DanmNets_Get cli (Namespace ep) (NetworkID ep) s = (Inr netInfo, s1)"
  shows "fst (deleteInterface cli ep s) =
           [Call_deleteInterface ep, Call_DanmNets_Get (Namespace ep) (NetworkID ep)]
           @ (if NetworkType ep \<noteq> ''ipvlan'' then [Call_ipam_Free netInfo (Address ep)] else [])
           @ [Call_DanmEps_Delete (Namespace ep) (Name ep)]"
  using assms by (simp add: deleteInterface_def)

lemma map_index_podsandbox:
  "map_index m k \<noteq> ''podsandbox'' \<longleftrightarrow> m k \<noteq> Some ''podsandbox''"
  by (simp add: map_index_def split: option.splits)

subsection \<open>The startup sweep\<close>

text \<open>
  C2. When the three listings succeed, \<open>cleanup\<close> returns, and the endpoints it enters
  \<open>deleteInterface\<close> with are exactly the listed endpoints whose container identifier is
  in the exited listing, together with those whose container identifier is not in the
  listing of all containers. No endpoint whose container is listed and not listed as
  exited is among them.
\<close>

theorem cleanup_orphans:
  assumes "danmep_CidsByHost danmcli host s = (Inr eps, s1)"
      and "ListContainers dockercli optDead s1 = (Inr dockerDeads, s2)"
      and "ListContainers dockercli optAll s2 = (Inr dockerAll, s3)"
  shows "case cleanup dockercli danmcli (Inr host) s of
           Inl f \<Rightarrow> False
         | Inr (tr, s') \<Rightarrow>
             set (invoked tr) =
               {e \<in> set eps. CID e \<in> container_ID ` set dockerDeads}
               \<union> {e \<in> set eps. CID e \<notin> container_ID ` set dockerAll}
             \<and> (\<forall>e. CID e \<in> container_ID ` set dockerAll - container_ID ` set dockerDeads
                    \<longrightarrow> e \<notin> set (invoked tr))"
proof -
  from cleanup_invoked[OF assms] obtain t1 s4 t2 s5 where
    p1: "cleanup_deads danmcli dockerDeads eps s3 = (t1, s4)" and
    p2: "cleanup_missing danmcli (map container_ID dockerAll) eps s4 = (t2, s5)" and
    c: "cleanup dockercli danmcli (Inr host) s =
             Inr ([Call_CidsByHost host, Call_ListContainers optDead,
                   Call_ListContainers optAll] @ t1 @ t2, s5)"
    by blast
  have i1: "set (invoked t1) = {e \<in> set eps. CID e \<in> container_ID ` set dockerDeads}"
    using cleanup_deads_invoked[OF p1] by auto
  have i2: "set (invoked t2) = {e \<in> set eps. CID e \<notin> container_ID ` set dockerAll}"
    using cleanup_missing_invoked[OF p2] by auto
  show ?thesis
    using i1 i2 by (auto simp: c invoked_append)
qed

theorem cleanup_orphans_witness:
  "case cleanup ref_dockercli ref_cli (Inr ''node1'') world3 of
     Inl f \<Rightarrow> False
   | Inr (tr, s') \<Rightarrow>
       ep2 \<in> set (invoked tr) \<and> ep1 \<in> set (invoked tr) \<and> ep4 \<in> set (invoked tr)
       \<and> ep3 \<notin> set (invoked tr)"
proof -
  have h1: "danmep_CidsByHost ref_cli ''node1'' world3 = (Inr [ep2, ep1, ep3, ep4], world3)"
    by (simp add: ref_defs scenario_defs)
  have h2: "ListContainers ref_dockercli optDead world3 = (Inr [abc_exited], world3)"
    by (simp add: ref_defs scenario_defs)
  have h3: "ListContainers ref_dockercli optAll world3 = (Inr [abc_exited, run_running], world3)"
    by (simp add: ref_defs scenario_defs)
  show ?thesis
    using cleanup_orphans[OF h1 h2 h3]
    by (auto simp: ep1_def ep2_def ep3_def ep4_def abc_exited_def run_running_def
             split: sum.splits prod.splits)
qed

text \<open>
  C10. When every container identifier of the exited listing is also in the listing of
  all containers, and the identifiers of the exited listing are distinct, the two passes
  of \<open>cleanup\<close> select disjoint sets of endpoints, and the sweep enters
  \<open>deleteInterface\<close> with an endpoint at most as often as the registry listing holds it:
  at most once when the listing holds each endpoint once. Distinct identifiers in the
  listing of all containers are not needed.
\<close>

theorem cleanup_once_per_endpoint:
  assumes "danmep_CidsByHost danmcli host s = (Inr eps, s1)"
      and "ListContainers dockercli optDead s1 = (Inr dockerDeads, s2)"
      and "ListContainers dockercli optAll s2 = (Inr dockerAll, s3)"
      and "set (map container_ID dockerDeads) \<subseteq> set (map container_ID dockerAll)"
      and "distinct (map container_ID dockerDeads)"
  shows "set (invoked (fst (cleanup_deads danmcli dockerDeads eps sa)))
           \<inter> set (invoked (fst (cleanup_missing danmcli (container_ids [] dockerAll) eps sb))) = {}
         \<and> (case cleanup dockercli danmcli (Inr host) s of
               Inl f \<Rightarrow> False
             | Inr (tr, s') \<Rightarrow>
                 (\<forall>e. count_list (invoked tr) e \<le> count_list eps e)
                 \<and> (distinct eps \<longrightarrow> distinct (invoked tr)))"
proof -
  let ?sel1 = "concat (map (\<lambda>dead. filter (\<lambda>e. CID e = container_ID dead) eps) dockerDeads)"
  let ?sel2 = "filter (\<lambda>e. CID e \<notin> set (map container_ID dockerAll)) eps"
  have i1: "invoked (fst (cleanup_deads danmcli dockerDeads eps sa)) = ?sel1" for sa
    using cleanup_deads_invoked[of danmcli dockerDeads eps sa]
    by (cases "cleanup_deads danmcli dockerDeads eps sa") simp
  have i2: "invoked (fst (cleanup_missing danmcli (container_ids [] dockerAll) eps sb)) = ?sel2"
    for sb
    using cleanup_missing_invoked[of danmcli "container_ids [] dockerAll" eps sb]
    by (cases "cleanup_missing danmcli (container_ids [] dockerAll) eps sb")
       (simp add: container_ids_eq)
  have disj: "set ?sel1 \<inter> set ?sel2 = {}"
    using assms(4) by auto
  have cnt: "count_list (?sel1 @ ?sel2) e \<le> count_list eps e" for e
  proof (cases "CID e \<in> set (map container_ID dockerDeads)")
    case True
    then have "CID e \<in> set (map container_ID dockerAll)"
      using assms(4) by blast
    then have "count_list ?sel2 e = 0"
      by (simp add: count_list_filter)
    moreover have "count_list ?sel1 e \<le> count_list eps e"
      using distinct_count_le_1[OF assms(5), of "CID e"]
      by (simp add: count_list_selected)
    ultimately show ?thesis by simp
  next
    case False
    then have "count_list (map container_ID dockerDeads) (CID e) = 0"
      by (simp add: count_list_0_iff)
    then have "count_list ?sel1 e = 0"
      by (simp add: count_list_selected)
    then show ?thesis by (simp add: count_list_filter)
  qed
  from cleanup_invoked[OF assms(1,2,3)] obtain t1 s4 t2 s5 where
    p1: "cleanup_deads danmcli dockerDeads eps s3 = (t1, s4)" and
    p2: "cleanup_missing danmcli (map container_ID dockerAll) eps s4 = (t2, s5)" and
    c: "cleanup dockercli danmcli (Inr host) s =
             Inr ([Call_CidsByHost host, Call_ListContainers optDead,
                   Call_ListContainers optAll] @ t1 @ t2, s5)"
    by blast
  have inv: "invoked ([Call_CidsByHost host, Call_ListContainers optDead,
                   Call_ListContainers optAll] @ t1 @ t2) = ?sel1 @ ?sel2"
    using cleanup_deads_invoked[OF p1] cleanup_missing_invoked[OF p2]
    by (simp add: invoked_append)
  have d: "distinct (?sel1 @ ?sel2)" if "distinct eps"
    using count_le_distinct[of "?sel1 @ ?sel2" eps] cnt that by blast
  have both: "(\<forall>e. count_list (?sel1 @ ?sel2) e \<le> count_list eps e)
              \<and> (distinct eps \<longrightarrow> distinct (?sel1 @ ?sel2))"
    using cnt d by blast
  show ?thesis
    unfolding i1 i2 c sum.case prod.case inv using disj both by blast
qed

theorem cleanup_once_per_endpoint_witness:
  "set (invoked (fst (cleanup_deads ref_cli [abc_exited] [ep2, ep1, ep3, ep4] world3)))
     \<inter> set (invoked (fst (cleanup_missing ref_cli
           (container_ids [] [abc_exited, run_running]) [ep2, ep1, ep3, ep4] world3))) = {}
   \<and> (case cleanup ref_dockercli ref_cli (Inr ''node1'') world3 of
         Inl f \<Rightarrow> False
       | Inr (tr, s') \<Rightarrow> distinct (invoked tr) \<and> count_list (invoked tr) ep1 \<le> 1)"
proof -
  have h1: "danmep_CidsByHost ref_cli ''node1'' world3 = (Inr [ep2, ep1, ep3, ep4], world3)"
    by (simp add: ref_defs scenario_defs)
  have h2: "ListContainers ref_dockercli optDead world3 = (Inr [abc_exited], world3)"
    by (simp add: ref_defs scenario_defs)
  have h3: "ListContainers ref_dockercli optAll world3 = (Inr [abc_exited, run_running], world3)"
    by (simp add: ref_defs scenario_defs)
  have h4: "set (map container_ID [abc_exited]) \<subseteq> set (map container_ID [abc_exited, run_running])"
    by simp
  have h5: "distinct (map container_ID [abc_exited])"
    by simp
  have d: "distinct [ep2, ep1, ep3, ep4]"
    by (simp add: ep1_def ep2_def ep3_def ep4_def)
  have c1: "count_list [ep2, ep1, ep3, ep4] ep1 = 1"
    by (simp add: ep1_def ep2_def ep3_def ep4_def)
  note inst = cleanup_once_per_endpoint[OF h1 h2 h3 h4 h5, of world3 world3]
  from inst obtain tr s' where
    r: "cleanup ref_dockercli ref_cli (Inr ''node1'') world3 = Inr (tr, s')" and
    q: "\<forall>e. count_list (invoked tr) e \<le> count_list [ep2, ep1, ep3, ep4] e" and
    q': "distinct [ep2, ep1, ep3, ep4] \<longrightarrow> distinct (invoked tr)"
    by (auto split: sum.splits prod.splits)
  have "distinct (invoked tr)"
    using q' d by blast
  moreover have "count_list (invoked tr) ep1 \<le> 1"
    using q[rule_format, of ep1] c1 by simp
  ultimately show ?thesis
    using inst r by simp
qed

subsection \<open>The deletion routine\<close>

text \<open>
  C4. When the fetch of the network definition fails, with whatever error,
  \<open>deleteInterface\<close> issues the fetch, logs the network identifier and returns: the
  release and the delete are not issued, and the state is the one the fetch itself left,
  since no other collaborator is called. On the reference registry, where a fetch reads
  only, the state is unchanged.
\<close>

theorem deleteInterface_fetch_failure:
  "(DanmNets_Get cli (Namespace ep) (NetworkID ep) s = (Inl err, s1) \<longrightarrow>
      deleteInterface cli ep s =
        ([Call_deleteInterface ep,
          Call_DanmNets_Get (Namespace ep) (NetworkID ep),
          Call_glog_Errorf (''Cannot fetch net info for net: '' @ NetworkID ep)], s1))
   \<and> (fst (DanmNets_Get ref_cli (Namespace ep) (NetworkID ep) w) = Inl err' \<longrightarrow>
        snd (deleteInterface ref_cli ep w) = w)"
proof -
  have "snd (deleteInterface ref_cli ep w) = w"
    if "fst (DanmNets_Get ref_cli (Namespace ep) (NetworkID ep) w) = Inl err'"
    using that
    by (simp add: deleteInterface_ref_state ref_cli_sel ref_DanmNets_Get_def
             split: option.splits)
  then show ?thesis
    by (simp add: deleteInterface_def)
qed

theorem deleteInterface_fetch_failure_witness:
  "deleteInterface ref_cli ep2 world3 =
     ([Call_deleteInterface ep2, Call_DanmNets_Get ''x'' ''net2'',
       Call_glog_Errorf ''Cannot fetch net info for net: net2''], world3)
   \<and> snd (deleteInterface ref_cli ep2 world3) = world3
   \<and> ep_present ep2 world3"
proof -
  have h: "DanmNets_Get ref_cli (Namespace ep2) (NetworkID ep2) world3 = (Inl NotFound, world3)"
    by (simp add: ref_defs scenario_defs)
  have p: "ep_present ep2 world3"
    by (simp add: ep_present_def ep_key_def scenario_defs)
  have sel: "Namespace ep2 = ''x''" "NetworkID ep2 = ''net2''"
    by (simp_all add: ep2_def)
  note inst = deleteInterface_fetch_failure[of ref_cli ep2 world3 NotFound world3 world3 NotFound]
  have a: "deleteInterface ref_cli ep2 world3 =
     ([Call_deleteInterface ep2, Call_DanmNets_Get ''x'' ''net2'',
       Call_glog_Errorf ''Cannot fetch net info for net: net2''], world3)"
    using inst[THEN conjunct1] h by (simp add: sel)
  have b: "snd (deleteInterface ref_cli ep2 world3) = world3"
    using inst[THEN conjunct2] h by simp
  show ?thesis
    using a b p by blast
qed




text \<open>
  C5, as amended. For an endpoint whose fetch succeeds and whose own type field is not
  \<open>ipvlan\<close>, \<open>deleteInterface\<close> does not read the outcome of the release: whatever the
  outcome, it issues the delete of the record next, on the state the release left, and
  it logs nothing of its own about the release.
\<close>

theorem deleteInterface_release_outcome_unread:
  assumes "DanmNets_Get cli (Namespace ep) (NetworkID ep) s = (Inr netInfo, s1)"
      and "NetworkType ep \<noteq> ''ipvlan''"
      and "ipam_Free cli netInfo (Address ep) s1 = (outcome, s2)"
  shows "deleteInterface cli ep s =
           ([Call_deleteInterface ep,
             Call_DanmNets_Get (Namespace ep) (NetworkID ep),
             Call_ipam_Free netInfo (Address ep),
             Call_DanmEps_Delete (Namespace ep) (Name ep)],
            snd (DanmEps_Delete cli (Namespace ep) (Name ep) s2))"
  using assms by (simp add: deleteInterface_def)

theorem deleteInterface_release_outcome_unread_witness:
  "deleteInterface release_down_cli ep1 world1 =
       ([Call_deleteInterface ep1, Call_DanmNets_Get ''x'' ''net1'',
         Call_ipam_Free net1 ''10.0.0.5'', Call_DanmEps_Delete ''x'' ''ep1''],
        world1\<lparr>w_eps := []\<rparr>)
   \<and> deleteInterface ref_cli ep1 world1 =
       ([Call_deleteInterface ep1, Call_DanmNets_Get ''x'' ''net1'',
         Call_ipam_Free net1 ''10.0.0.5'', Call_DanmEps_Delete ''x'' ''ep1''],
        world1\<lparr>w_nets := [net1\<lparr>net_Alloc := [''10.0.0.6'', ''10.0.0.7'']\<rparr>], w_eps := []\<rparr>)"
proof -
  have g: "DanmNets_Get release_down_cli (Namespace ep1) (NetworkID ep1) world1 = (Inr net1, world1)"
    by (simp add: release_down_cli_def ref_defs scenario_defs)
  have g': "DanmNets_Get ref_cli (Namespace ep1) (NetworkID ep1) world1 = (Inr net1, world1)"
    by (simp add: ref_defs scenario_defs)
  have t: "NetworkType ep1 \<noteq> ''ipvlan''"
    by (simp add: ep1_def)
  have f: "ipam_Free release_down_cli net1 (Address ep1) world1 = (Some Transient, world1)"
    by (simp add: release_down_cli_def ref_defs)
  have f': "ipam_Free ref_cli net1 (Address ep1) world1 =
              (None, world1\<lparr>w_nets := [net1\<lparr>net_Alloc := [''10.0.0.6'', ''10.0.0.7'']\<rparr>]\<rparr>)"
    by (simp add: ref_defs scenario_defs)
  show ?thesis
    using deleteInterface_release_outcome_unread[OF g t f]
          deleteInterface_release_outcome_unread[OF g' t f']
    by (simp add: release_down_cli_def ref_defs scenario_defs)
qed

text \<open>
  C5 as stated fails where it says that the failure is logged: with an allocator whose
  release fails, \<open>deleteInterface\<close> issues the fetch, the release and the delete, and no
  call to the logger.
\<close>

theorem deleteInterface_release_failure_counterexample:
  "fst (ipam_Free release_down_cli net1 (Address ep1) world1) = Some Transient
   \<and> deleteInterface release_down_cli ep1 world1 =
       ([Call_deleteInterface ep1, Call_DanmNets_Get ''x'' ''net1'',
         Call_ipam_Free net1 ''10.0.0.5'', Call_DanmEps_Delete ''x'' ''ep1''],
        world1\<lparr>w_eps := []\<rparr>)
   \<and> filter is_glog (fst (deleteInterface release_down_cli ep1 world1)) = []"
  by (simp add: deleteInterface_def release_down_cli_def ref_defs scenario_defs)



text \<open>
  C1, as amended. A second call of \<open>deleteInterface\<close> on the same endpoint is a full
  call: it fetches again and, when the fetch succeeds, releases again (unless the type
  field is \<open>ipvlan\<close>) and deletes again. On the reference registry, where a release and a
  delete of what is already gone change nothing, two calls leave the state that one call
  leaves; the record is present afterwards exactly when it was present before and the
  network definition is absent; and the two calls together invoke the release twice,
  or not at all when the definition is absent or the type field is \<open>ipvlan\<close>.
\<close>

theorem deleteInterface_twice:
  "(DanmNets_Get cli (Namespace ep) (NetworkID ep) (snd (deleteInterface cli ep s)) = (Inr n2, s2)
      \<longrightarrow> fst (deleteInterface cli ep (snd (deleteInterface cli ep s))) =
            [Call_deleteInterface ep, Call_DanmNets_Get (Namespace ep) (NetworkID ep)]
            @ (if NetworkType ep \<noteq> ''ipvlan'' then [Call_ipam_Free n2 (Address ep)] else [])
            @ [Call_DanmEps_Delete (Namespace ep) (Name ep)])
   \<and> snd (deleteInterface ref_cli ep (snd (deleteInterface ref_cli ep w)))
     = snd (deleteInterface ref_cli ep w)
   \<and> ep_present ep (snd (deleteInterface ref_cli ep w))
     = (ep_present ep w
        \<and> fst (DanmNets_Get ref_cli (Namespace ep) (NetworkID ep) w) = Inl NotFound)
   \<and> length (filter is_ipam_Free
        (fst (deleteInterface ref_cli ep w)
         @ fst (deleteInterface ref_cli ep (snd (deleteInterface ref_cli ep w)))))
     = (if fst (DanmNets_Get ref_cli (Namespace ep) (NetworkID ep) w) = Inl NotFound
           \<or> NetworkType ep = ''ipvlan'' then 0 else 2)"
proof -
  have again: "DanmNets_Get cli (Namespace ep) (NetworkID ep) (snd (deleteInterface cli ep s))
                 = (Inr n2, s2)
      \<longrightarrow> fst (deleteInterface cli ep (snd (deleteInterface cli ep s))) =
            [Call_deleteInterface ep, Call_DanmNets_Get (Namespace ep) (NetworkID ep)]
            @ (if NetworkType ep \<noteq> ''ipvlan'' then [Call_ipam_Free n2 (Address ep)] else [])
            @ [Call_DanmEps_Delete (Namespace ep) (Name ep)]"
    using deleteInterface_fetched[of cli ep "snd (deleteInterface cli ep s)" n2 s2] by blast
  have store: "snd (deleteInterface ref_cli ep (snd (deleteInterface ref_cli ep w)))
       = snd (deleteInterface ref_cli ep w)
     \<and> ep_present ep (snd (deleteInterface ref_cli ep w))
       = (ep_present ep w
          \<and> fst (DanmNets_Get ref_cli (Namespace ep) (NetworkID ep) w) = Inl NotFound)
     \<and> length (filter is_ipam_Free
          (fst (deleteInterface ref_cli ep w)
           @ fst (deleteInterface ref_cli ep (snd (deleteInterface ref_cli ep w)))))
       = (if fst (DanmNets_Get ref_cli (Namespace ep) (NetworkID ep) w) = Inl NotFound
             \<or> NetworkType ep = ''ipvlan'' then 0 else 2)"
  proof (cases "find (net_key (Namespace ep) (NetworkID ep)) (w_nets w)")
    case None
    then show ?thesis
      by (simp add: deleteInterface_ref_state deleteInterface_ref_calls ref_cli_sel
                    ref_DanmNets_Get_def)
  next
    case (Some n)
    let ?f = "release (Namespace ep) (NetworkID ep) (Address ep)"
    have fm: "find (net_key (Namespace ep) (NetworkID ep)) (map ?f (w_nets w)) = Some (?f n)"
      using Some by (simp add: find_map_preserved release_key)
    have mm: "map ?f (map ?f (w_nets w)) = map ?f (w_nets w)"
      by (simp add: release_idem)
    show ?thesis
      using Some fm mm
      by (simp add: deleteInterface_ref_state deleteInterface_ref_calls ref_cli_sel
                    ref_DanmNets_Get_def ep_present_def find_filter_not)
  qed
  show ?thesis
    using again store by blast
qed

text \<open>
  Scenario 1, with \<open>deleteInterface\<close> called twice on \<open>ep1\<close>: the second call leaves the
  state of the first, the record is gone, and the release was invoked twice.
\<close>

theorem deleteInterface_twice_witness:
  "snd (deleteInterface ref_cli ep1 (snd (deleteInterface ref_cli ep1 world1)))
     = snd (deleteInterface ref_cli ep1 world1)
   \<and> \<not> ep_present ep1 (snd (deleteInterface ref_cli ep1 world1))
   \<and> length (filter is_ipam_Free
        (fst (deleteInterface ref_cli ep1 world1)
         @ fst (deleteInterface ref_cli ep1 (snd (deleteInterface ref_cli ep1 world1))))) = 2
   \<and> fst (deleteInterface ref_cli ep1 (snd (deleteInterface ref_cli ep1 world1))) =
       [Call_deleteInterface ep1, Call_DanmNets_Get ''x'' ''net1'',
        Call_ipam_Free (net1\<lparr>net_Alloc := [''10.0.0.6'', ''10.0.0.7'']\<rparr>) ''10.0.0.5'',
        Call_DanmEps_Delete ''x'' ''ep1'']"
proof -
  let ?w1 = "world1\<lparr>w_nets := [net1\<lparr>net_Alloc := [''10.0.0.6'', ''10.0.0.7'']\<rparr>], w_eps := []\<rparr>"
  have g: "fst (DanmNets_Get ref_cli (Namespace ep1) (NetworkID ep1) world1) \<noteq> Inl NotFound"
    by (simp add: ref_defs scenario_defs)
  have t: "NetworkType ep1 \<noteq> ''ipvlan''"
    by (simp add: ep1_def)
  have s1: "snd (deleteInterface ref_cli ep1 world1) = ?w1"
    by (simp add: deleteInterface_def ref_defs scenario_defs)
  have g2: "DanmNets_Get ref_cli (Namespace ep1) (NetworkID ep1)
              (snd (deleteInterface ref_cli ep1 world1))
            = (Inr (net1\<lparr>net_Alloc := [''10.0.0.6'', ''10.0.0.7'']\<rparr>), ?w1)"
    unfolding s1 by (simp add: ref_defs scenario_defs)
  have sel: "Namespace ep1 = ''x''" "NetworkID ep1 = ''net1''" "Name ep1 = ''ep1''"
            "Address ep1 = ''10.0.0.5''"
    by (simp_all add: ep1_def)
  note inst = deleteInterface_twice[of ref_cli ep1 world1
            "net1\<lparr>net_Alloc := [''10.0.0.6'', ''10.0.0.7'']\<rparr>" ?w1 world1]
  have a: "fst (deleteInterface ref_cli ep1 (snd (deleteInterface ref_cli ep1 world1))) =
       [Call_deleteInterface ep1, Call_DanmNets_Get ''x'' ''net1'',
        Call_ipam_Free (net1\<lparr>net_Alloc := [''10.0.0.6'', ''10.0.0.7'']\<rparr>) ''10.0.0.5'',
        Call_DanmEps_Delete ''x'' ''ep1'']"
    using inst[THEN conjunct1] g2 t by (simp add: sel)
  have b: "snd (deleteInterface ref_cli ep1 (snd (deleteInterface ref_cli ep1 world1)))
             = snd (deleteInterface ref_cli ep1 world1)"
    using inst by blast
  have c: "\<not> ep_present ep1 (snd (deleteInterface ref_cli ep1 world1))"
    using inst g by blast
  have d: "length (filter is_ipam_Free
        (fst (deleteInterface ref_cli ep1 world1)
         @ fst (deleteInterface ref_cli ep1 (snd (deleteInterface ref_cli ep1 world1))))) = 2"
    using inst[THEN conjunct2, THEN conjunct2, THEN conjunct2] g t by simp
  show ?thesis
    using a b c d by blast
qed

text \<open>
  C1 as stated fails twice. In scenario 1 the two calls invoke the release twice, not at
  most once. And for \<open>ep2\<close>, whose network has no definition, the record is still present
  after two calls.
\<close>

theorem deleteInterface_twice_counterexample:
  "\<not> length (filter is_ipam_Free
        (fst (deleteInterface ref_cli ep1 world1)
         @ fst (deleteInterface ref_cli ep1 (snd (deleteInterface ref_cli ep1 world1))))) \<le> 1
   \<and> ep_present ep2 (snd (deleteInterface ref_cli ep2 (snd (deleteInterface ref_cli ep2 world3))))"
  by (simp add: deleteInterface_def ep_present_def ref_defs scenario_defs)

subsection \<open>The event watcher\<close>

text \<open>
  C6. A notification whose category is not \<open>container\<close>, or whose actor attribute
  \<open>io.kubernetes.docker.type\<close> is absent or is not \<open>podsandbox\<close>, makes the watcher issue
  no call at all, whatever its action: the loop takes the next message in the same
  state.
\<close>

theorem Watch_select_filtered:
  assumes "ev_Type msg \<noteq> ''container''
           \<or> ev_Attributes msg ''io.kubernetes.docker.type'' \<noteq> Some ''podsandbox''"
  shows "Watch_select cli msg s = ([], s)
         \<and> Watch_loop cli (msg # msgs) s = Watch_loop cli msgs s"
proof -
  have "Watch_select cli msg s = ([], s)"
    using assms by (auto simp: Watch_select_def ProcessEvent_def map_index_podsandbox)
  then show ?thesis by simp
qed

theorem Watch_select_filtered_witness:
  "Watch_select ref_cli network_die world3 = ([], world3)
   \<and> Watch_select ref_cli app_container_die world3 = ([], world3)
   \<and> Watch_select ref_cli unlabelled_die world3 = ([], world3)"
proof -
  have a: "ev_Type network_die \<noteq> ''container''"
    by (simp add: network_die_def)
  have b: "ev_Attributes app_container_die ''io.kubernetes.docker.type'' \<noteq> Some ''podsandbox''"
    by (simp add: app_container_die_def)
  have c: "ev_Attributes unlabelled_die ''io.kubernetes.docker.type'' \<noteq> Some ''podsandbox''"
    by (simp add: unlabelled_die_def)
  show ?thesis
    using Watch_select_filtered[of network_die ref_cli world3 "[]"]
          Watch_select_filtered[of app_container_die ref_cli world3 "[]"]
          Watch_select_filtered[of unlabelled_die ref_cli world3 "[]"] a b c
    by simp
qed



text \<open>
  What \<open>ProcessEvent\<close> does when the lookup fails, and when it returns no endpoint. In
  both cases the loop goes on with the next message.
\<close>

lemma ProcessEvent_lookup_failure:
  assumes "map_index (ev_Attributes event) ''io.kubernetes.docker.type'' = ''podsandbox''"
      and "ev_Action event \<in> {''kill'', ''die'', ''stop'', ''destroy''}"
      and "danmep_FindByCid cli (ev_ID event) s = (Inl err, s1)"
  shows "ProcessEvent cli event s = ([Call_FindByCid (ev_ID event)], s1)"
  using assms by (auto simp: ProcessEvent_def)

lemma ProcessEvent_no_records:
  assumes "map_index (ev_Attributes event) ''io.kubernetes.docker.type'' = ''podsandbox''"
      and "ev_Action event \<in> {''kill'', ''die'', ''stop'', ''destroy''}"
      and "danmep_FindByCid cli (ev_ID event) s = (Inr [], s1)"
  shows "ProcessEvent cli event s = ([Call_FindByCid (ev_ID event), Call_glog_Infof_eps []], s1)"
  using assms by (auto simp: ProcessEvent_def)

lemma Watch_loop_continues:
  "Watch_loop cli (msg # msgs) s =
     (fst (Watch_select cli msg s) @ fst (Watch_loop cli msgs (snd (Watch_select cli msg s))),
      snd (Watch_loop cli msgs (snd (Watch_select cli msg s))))"
  by (simp split: prod.splits)

lemma Watch_subscribed:
  assumes "AddEventListener client s = (None, s1)"
  shows "Watch cli client msgs s =
           Inr ([Call_AddEventListener, Call_glog_Info ''Connected'']
                @ fst (Watch_loop cli msgs s1), snd (Watch_loop cli msgs s1))"
  using assms by (simp add: Watch_def split: prod.splits)

text \<open>
  Scenario 4: the event \<open>destroy\<close> for the sandbox \<open>abc\<close> when the registry holds no
  endpoint of \<open>abc\<close>. The lookup is issued and its empty result logged, nothing is
  deleted, and the next event is handled.
\<close>

lemma scenario_4:
  "Watch_loop ref_cli [sandbox_event ''destroy'' ''abc'', sandbox_event ''destroy'' ''run'']
     (world3\<lparr>w_eps := [ep3]\<rparr>) =
     ([Call_FindByCid ''abc'', Call_glog_Infof_eps [],
       Call_FindByCid ''run'', Call_glog_Infof_eps [ep3],
       Call_deleteInterface ep3, Call_DanmNets_Get ''x'' ''net1'',
       Call_ipam_Free net1 ''10.0.0.6'', Call_DanmEps_Delete ''x'' ''ep3''],
      world3\<lparr>w_nets := [net1\<lparr>net_Alloc := [''10.0.0.5'', ''10.0.0.7'']\<rparr>], w_eps := []\<rparr>)"
  by (simp add: Watch_select_def ProcessEvent_def deleteInterface_def sandbox_event_def
                map_index_def ref_defs scenario_defs)

text \<open>
  C8. The claim says that a failed lookup is logged. \<open>ProcessEvent\<close> returns at line 40
  without a call to the logger: with a registry whose lookup fails, the event \<open>destroy\<close>
  for the sandbox \<open>abc\<close> issues the lookup and nothing else, and the loop handles the next
  event. Every other error branch of \<open>main.go\<close> logs.
\<close>

theorem ProcessEvent_lookup_failure_silent:
  "fst (danmep_FindByCid lookup_down_cli ''abc'' world3) = Inl Transient
   \<and> Watch_select lookup_down_cli (sandbox_event ''destroy'' ''abc'') world3
       = ([Call_FindByCid ''abc''], world3)
   \<and> filter is_glog
        (fst (Watch_select lookup_down_cli (sandbox_event ''destroy'' ''abc'') world3)) = []
   \<and> Watch_loop lookup_down_cli
        [sandbox_event ''destroy'' ''abc'', sandbox_event ''create'' ''new''] world3
       = ([Call_FindByCid ''abc''], world3)"
  by (simp add: Watch_select_def ProcessEvent_def lookup_down_cli_def sandbox_event_def
                map_index_def)

end
